theory Spec2Isabelle
  imports Complex_Main "HOL-Library.Product_Lexorder"
begin

section \<open>Data model of NCInfo.hh\<close>

text \<open>
  A C++ \<open>double\<close> is modelled by the real number it denotes. The fields of the data
  model are only stored, copied and compared, and on finite doubles comparison and
  equality agree with those of the reals. The two range estimators of the lattice
  utilities compute with the exact arithmetic of the reals, as the formulas of the
  specification read; rounding is outside the model. NaN is outside the model as
  well; a result that is documented to be infinity, or that divides by zero, has a
  result type of its own (\<open>xdouble\<close> below). The unit wrappers (Temperature, Density, NumberDensity,
  SigmaFree, SigmaAbsorption, DebyeTemperature, CrossSect, NeutronEnergy) are tagged
  scalars and are modelled by the scalar.

  \<open>unsigned\<close> fields are natural numbers; the one conversion from \<open>size_t\<close> to
  \<open>unsigned\<close> (in \<open>nHKL\<close>) has its truncation written out.
\<close>

type_synonym double = real

record StructureInfo =
  spacegroup :: nat
  lattice_a :: double
  lattice_b :: double
  lattice_c :: double
  alpha :: double
  beta :: double
  gamma :: double
  volume :: double
  n_atoms :: nat

type_synonym Normal = "double \<times> double \<times> double"

text \<open>
  \<open>eqv_hkl\<close> is a \<open>unique_ptr<short[]>\<close>: \<open>None\<close> is the null pointer, otherwise the
  array of packed Miller indices.
\<close>

record HKLInfo =
  dspacing :: double
  fsquared :: double
  h :: int
  k :: int
  l :: int
  multiplicity :: nat
  demi_normals :: "Normal list"
  eqv_hkl :: "int list option"

type_synonym HKLList = "HKLInfo list"

text \<open>
  Modelled from the spec: \<open>AtomData\<close> is declared in NCAtomData.hh, which is not part
  of the sources at hand. The model keeps what the data model refers to: the identity of
  the shared record (\<open>AtomDataSP\<close> is a shared pointer, compared by identity) and its
  atomic number.
\<close>

record AtomData =
  atomdata_uid :: nat
  atomdata_Z :: nat

type_synonym AtomDataSP = AtomData
type_synonym AtomIndex = nat

record IndexedAtomData =
  atomDataSP :: AtomDataSP
  index :: AtomIndex

type_synonym Pos = "double \<times> double \<times> double"

text \<open>
  The two back-references \<open>m_dyninfo\<close> and \<open>m_atomInfo\<close> are non-owning pointers into
  the lists of the same Info object; they are modelled as positions in those lists,
  \<open>None\<close> being the null pointer.
\<close>

record AtomInfo =
  m_iad :: IndexedAtomData
  m_dt :: "double option"
  m_msd :: "double option"
  m_pos :: "Pos list"
  m_dyninfo :: "nat option"

type_synonym AtomInfoList = "AtomInfo list"

datatype DynamicInfoKind =
    DI_Sterile
  | DI_FreeGas
  | DI_ScatKnlDirect
  | DI_VDOS
  | DI_VDOSDebye double

record DynamicInfo =
  m_fraction :: double
  m_atom :: IndexedAtomData
  m_temperature :: double
  m_atomInfo :: "nat option"
  di_kind :: DynamicInfoKind

text \<open>
  A \<open>DynamicInfoList\<close> holds \<open>unique_ptr<DynamicInfo>\<close>; \<open>addDynInfo\<close> receives such a
  pointer, which may be null, so the argument of \<open>addDynInfo\<close> is an option and the list
  stores what was pushed.
\<close>

type_synonym DynamicInfoList = "DynamicInfo option list"

record CompositionEntry =
  fraction :: double
  atom :: IndexedAtomData

type_synonym Composition = "CompositionEntry list"

type_synonym CustomLine = "string list"
type_synonym CustomSectionData = "CustomLine list"
type_synonym CustomSectionName = string
type_synonym CustomData = "(CustomSectionName \<times> CustomSectionData) list"

text \<open>
  \<open>m_xsectprovider\<close> is a \<open>std::function\<close>, which may be empty (\<open>None\<close>).
  \<open>m_atomDataSPs\<close> and \<open>m_displayLabels\<close> are vectors indexed by \<open>AtomIndex\<close>.
\<close>

record Info =
  m_uid :: nat
  m_structinfo :: "StructureInfo option"
  m_atomlist :: AtomInfoList
  m_hkllist :: HKLList
  m_dyninfolist :: DynamicInfoList
  m_hkl_dlower_and_dupper :: "(double \<times> double) option"
  m_density :: "double option"
  m_numberdensity :: "double option"
  m_xsect_free :: "double option"
  m_xsect_absorption :: "double option"
  m_temp :: "double option"
  m_xsectprovider :: "(double \<Rightarrow> double) option"
  m_composition :: Composition
  m_custom :: CustomData
  m_lock :: bool
  m_atomDataSPs :: "AtomDataSP list"
  m_displayLabels :: "string list"

section \<open>Errors\<close>

text \<open>
  Every exception of the source is a value. \<open>LogicError\<close> (with its message) and
  \<open>BadInput\<close> are the exception classes named in the sources. \<open>AssertionFailure\<close> is
  a failed \<open>nc_assert\<close> or \<open>nc_assert_always\<close>. \<open>InvariantViolation\<close> is the error
  the specification gives to a mutation of a locked object, and \<open>EmptyOptional\<close> stands
  for reading the value of an empty \<open>Optional\<close>.
\<close>

datatype error =
    LogicError string
  | BadInput
  | AssertionFailure
  | InvariantViolation
  | EmptyOptional

definition ebind :: "error + 'a \<Rightarrow> ('a \<Rightarrow> error + 'b) \<Rightarrow> error + 'b" where
  "ebind m f = (case m of Inl e \<Rightarrow> Inl e | Inr x \<Rightarrow> f x)"

text \<open>
  The assertion macros are not defined in the sources at hand. \<open>nc_assert_always\<close> is
  checked in every build; \<open>nc_assert\<close> only in a debug build, so the functions that use
  it take the build mode as their first argument (\<open>True\<close> for a debug build).
\<close>

definition nc_assert_always :: "bool \<Rightarrow> error + unit" where
  "nc_assert_always c = (if c then Inr () else Inl AssertionFailure)"

definition nc_assert :: "bool \<Rightarrow> bool \<Rightarrow> error + unit" where
  "nc_assert dbg c = (if dbg \<and> \<not> c then Inl AssertionFailure else Inr ())"

definition has_value :: "'a option \<Rightarrow> bool" where
  "has_value x = (case x of None \<Rightarrow> False | Some _ \<Rightarrow> True)"

definition optional_value :: "'a option \<Rightarrow> error + 'a" where
  "optional_value x = (case x of None \<Rightarrow> Inl EmptyOptional | Some v \<Rightarrow> Inr v)"

section \<open>Read accessors of Info\<close>

definition hasStructureInfo :: "Info \<Rightarrow> bool" where
  "hasStructureInfo i = has_value (m_structinfo i)"

definition hasAtomInfo :: "Info \<Rightarrow> bool" where
  "hasAtomInfo i = (\<not> (m_atomlist i = []))"

definition hasAtomPositions :: "Info \<Rightarrow> bool" where
  "hasAtomPositions i = hasAtomInfo i"

definition hasHKLInfo :: "Info \<Rightarrow> bool" where
  "hasHKLInfo i = has_value (m_hkl_dlower_and_dupper i)"

definition isCrystalline :: "Info \<Rightarrow> bool" where
  "isCrystalline i = (hasStructureInfo i \<or> hasAtomPositions i \<or> hasHKLInfo i)"

text \<open>
  \<open>front()\<close> of an empty vector is undefined in C++; the sources only reach it behind
  \<open>hasAtomInfo() &&\<close>, and the model keeps that guard in front of \<open>hd\<close>.
\<close>

definition hasAtomMSD :: "Info \<Rightarrow> bool" where
  "hasAtomMSD i = (hasAtomInfo i \<and> has_value (m_msd (hd (m_atomlist i))))"

definition hasAtomDebyeTemp :: "Info \<Rightarrow> bool" where
  "hasAtomDebyeTemp i = (hasAtomInfo i \<and> has_value (m_dt (hd (m_atomlist i))))"

definition hasDebyeTemperature :: "Info \<Rightarrow> bool" where
  "hasDebyeTemperature i = hasAtomDebyeTemp i"

definition hasAnyDebyeTemperature :: "Info \<Rightarrow> bool" where
  "hasAnyDebyeTemperature i = hasAtomDebyeTemp i"

definition hasDynamicInfo :: "Info \<Rightarrow> bool" where
  "hasDynamicInfo i = (\<not> (m_dyninfolist i = []))"

definition hasComposition :: "Info \<Rightarrow> bool" where
  "hasComposition i = (\<not> (m_composition i = []))"

definition isLocked :: "Info \<Rightarrow> bool" where
  "isLocked i = m_lock i"

subsection \<open>The reflection list\<close>

text \<open>
  A \<open>HKLList::const_iterator\<close> is modelled by its position in the list: \<open>begin()\<close> is
  position 0 and \<open>end()\<close> is the length of the list.
\<close>

definition nHKL :: "Info \<Rightarrow> nat" where
  "nHKL i = length (m_hkllist i) mod 2 ^ 32"

definition hklBegin :: "Info \<Rightarrow> nat" where
  "hklBegin i = 0"

definition hklEnd :: "Info \<Rightarrow> nat" where
  "hklEnd i = length (m_hkllist i)"

definition hklLast :: "Info \<Rightarrow> nat" where
  "hklLast i = (if m_hkllist i = [] then hklEnd i else hklEnd i - 1)"

definition hklList :: "Info \<Rightarrow> HKLList" where
  "hklList i = m_hkllist i"

definition hklDLower :: "bool \<Rightarrow> Info \<Rightarrow> error + double" where
  "hklDLower dbg i =
     ebind (nc_assert dbg (hasHKLInfo i))
       (\<lambda>_. ebind (optional_value (m_hkl_dlower_and_dupper i)) (\<lambda>p. Inr (fst p)))"

definition hklDUpper :: "bool \<Rightarrow> Info \<Rightarrow> error + double" where
  "hklDUpper dbg i =
     ebind (nc_assert dbg (hasHKLInfo i))
       (\<lambda>_. ebind (optional_value (m_hkl_dlower_and_dupper i)) (\<lambda>p. Inr (snd p)))"

definition hasExpandedHKLInfo :: "Info \<Rightarrow> bool" where
  "hasExpandedHKLInfo i =
     (hasHKLInfo i \<and> \<not> (m_hkllist i = []) \<and> has_value (eqv_hkl (hd (m_hkllist i))))"

definition hasHKLDemiNormals :: "Info \<Rightarrow> bool" where
  "hasHKLDemiNormals i =
     (hasHKLInfo i \<and> \<not> (m_hkllist i = []) \<and> \<not> (demi_normals (hd (m_hkllist i)) = []))"

subsection \<open>Obsolete accessors\<close>

definition obsoleteDebyeTempMessage :: string where
  "obsoleteDebyeTempMessage =
     ''The concept of global versus per-element Debye temperatures'' @
     '' has been removed. Revisit NCInfo.hh to see how to get Debye temperatures'' @
     '' from the AtomInfo objects (and note the new hasAtomDebyeTemp() method).''"

definition throwObsoleteDebyeTemp :: "error + unit" where
  "throwObsoleteDebyeTemp = Inl (LogicError obsoleteDebyeTempMessage)"

definition getGlobalDebyeTemperature :: "Info \<Rightarrow> error + double" where
  "getGlobalDebyeTemperature i = ebind throwObsoleteDebyeTemp (\<lambda>_. Inr (- 1))"

definition hasPerElementDebyeTemperature :: "Info \<Rightarrow> error + bool" where
  "hasPerElementDebyeTemperature i =
     ebind throwObsoleteDebyeTemp (\<lambda>_. Inr (hasAtomDebyeTemp i))"

definition getDebyeTemperatureByElement :: "Info \<Rightarrow> AtomIndex \<Rightarrow> error + double" where
  "getDebyeTemperatureByElement i ai = ebind throwObsoleteDebyeTemp (\<lambda>_. Inr (- 1))"

section \<open>Builder operations of Info\<close>

text \<open>
  \<open>Info() = default\<close>: every optional field empty, every list empty, the lock
  open. The unique id comes from a process-wide counter and is a parameter here.
\<close>

definition Info_default :: "nat \<Rightarrow> Info" where
  "Info_default uid =
     \<lparr> m_uid = uid, m_structinfo = None, m_atomlist = [], m_hkllist = [],
       m_dyninfolist = [], m_hkl_dlower_and_dupper = None, m_density = None,
       m_numberdensity = None, m_xsect_free = None, m_xsect_absorption = None,
       m_temp = None, m_xsectprovider = None, m_composition = [], m_custom = [],
       m_lock = False, m_atomDataSPs = [], m_displayLabels = [] \<rparr>"

text \<open>
  Modelled from the spec: \<open>Info::ensureNoLock\<close> is declared in NCInfo.hh and defined
  in a source file that is not at hand. The specification: all mutating operations
  assert that the object is still Building, and in the Locked state all setters fail
  fast with an invariant-violation error.
\<close>

definition ensureNoLock :: "Info \<Rightarrow> error + unit" where
  "ensureNoLock i = (if m_lock i then Inl InvariantViolation else Inr ())"

definition addAtom :: "Info \<Rightarrow> AtomInfo \<Rightarrow> error + Info" where
  "addAtom i ai =
     ebind (ensureNoLock i) (\<lambda>_. Inr (i\<lparr>m_atomlist := m_atomlist i @ [ai]\<rparr>))"

definition addHKL :: "Info \<Rightarrow> HKLInfo \<Rightarrow> error + Info" where
  "addHKL i hi =
     ebind (ensureNoLock i) (\<lambda>_. Inr (i\<lparr>m_hkllist := m_hkllist i @ [hi]\<rparr>))"

definition setHKLList :: "Info \<Rightarrow> HKLList \<Rightarrow> error + Info" where
  "setHKLList i hkllist =
     ebind (ensureNoLock i) (\<lambda>_. Inr (i\<lparr>m_hkllist := hkllist\<rparr>))"

definition setStructInfo :: "Info \<Rightarrow> StructureInfo \<Rightarrow> error + Info" where
  "setStructInfo i si =
     ebind (ensureNoLock i)
       (\<lambda>_. ebind (nc_assert_always (\<not> has_value (m_structinfo i)))
         (\<lambda>_. Inr (i\<lparr>m_structinfo := Some si\<rparr>)))"

definition setXSectFree :: "Info \<Rightarrow> double \<Rightarrow> error + Info" where
  "setXSectFree i x =
     ebind (ensureNoLock i) (\<lambda>_. Inr (i\<lparr>m_xsect_free := Some x\<rparr>))"

definition setXSectAbsorption :: "Info \<Rightarrow> double \<Rightarrow> error + Info" where
  "setXSectAbsorption i x =
     ebind (ensureNoLock i) (\<lambda>_. Inr (i\<lparr>m_xsect_absorption := Some x\<rparr>))"

definition setTemperature :: "Info \<Rightarrow> double \<Rightarrow> error + Info" where
  "setTemperature i t =
     ebind (ensureNoLock i) (\<lambda>_. Inr (i\<lparr>m_temp := Some t\<rparr>))"

definition setDensity :: "Info \<Rightarrow> double \<Rightarrow> error + Info" where
  "setDensity i d =
     ebind (ensureNoLock i) (\<lambda>_. Inr (i\<lparr>m_density := Some d\<rparr>))"

definition setNumberDensity :: "Info \<Rightarrow> double \<Rightarrow> error + Info" where
  "setNumberDensity i d =
     ebind (ensureNoLock i) (\<lambda>_. Inr (i\<lparr>m_numberdensity := Some d\<rparr>))"

definition setXSectProvider :: "bool \<Rightarrow> Info \<Rightarrow> (double \<Rightarrow> double) option \<Rightarrow> error + Info" where
  "setXSectProvider dbg i xsp =
     ebind (ensureNoLock i)
       (\<lambda>_. ebind (nc_assert dbg (has_value xsp))
         (\<lambda>_. Inr (i\<lparr>m_xsectprovider := xsp\<rparr>)))"

definition addDynInfo :: "bool \<Rightarrow> Info \<Rightarrow> DynamicInfo option \<Rightarrow> error + Info" where
  "addDynInfo dbg i di =
     ebind (ensureNoLock i)
       (\<lambda>_. ebind (nc_assert dbg (has_value di))
         (\<lambda>_. Inr (i\<lparr>m_dyninfolist := m_dyninfolist i @ [di]\<rparr>)))"

definition setComposition :: "Info \<Rightarrow> Composition \<Rightarrow> error + Info" where
  "setComposition i c =
     ebind (ensureNoLock i) (\<lambda>_. Inr (i\<lparr>m_composition := c\<rparr>))"

definition setCustomData :: "Info \<Rightarrow> CustomData \<Rightarrow> error + Info" where
  "setCustomData i cd =
     ebind (ensureNoLock i) (\<lambda>_. Inr (i\<lparr>m_custom := cd\<rparr>))"

text \<open>\<open>DynamicInfo::changeFraction\<close> writes the fraction; it consults no lock.\<close>

definition changeFraction :: "DynamicInfo \<Rightarrow> double \<Rightarrow> DynamicInfo" where
  "changeFraction d f = d\<lparr>m_fraction := f\<rparr>"

text \<open>
  The thirteen builder operations that begin with \<open>ensureNoLock()\<close>, as one type of
  calls, so that a statement can range over all of them.
\<close>

datatype Mutator =
    AddAtom AtomInfo
  | AddHKL HKLInfo
  | SetHKLList HKLList
  | SetStructInfo StructureInfo
  | SetXSectFree double
  | SetXSectAbsorption double
  | SetTemperature double
  | SetDensity double
  | SetNumberDensity double
  | SetXSectProvider "(double \<Rightarrow> double) option"
  | AddDynInfo "DynamicInfo option"
  | SetComposition Composition
  | SetCustomData CustomData

fun callMutator :: "bool \<Rightarrow> Info \<Rightarrow> Mutator \<Rightarrow> error + Info" where
  "callMutator dbg i (AddAtom ai) = addAtom i ai"
| "callMutator dbg i (AddHKL hi) = addHKL i hi"
| "callMutator dbg i (SetHKLList hs) = setHKLList i hs"
| "callMutator dbg i (SetStructInfo si) = setStructInfo i si"
| "callMutator dbg i (SetXSectFree x) = setXSectFree i x"
| "callMutator dbg i (SetXSectAbsorption x) = setXSectAbsorption i x"
| "callMutator dbg i (SetTemperature t) = setTemperature i t"
| "callMutator dbg i (SetDensity d) = setDensity i d"
| "callMutator dbg i (SetNumberDensity d) = setNumberDensity i d"
| "callMutator dbg i (SetXSectProvider xsp) = setXSectProvider dbg i xsp"
| "callMutator dbg i (AddDynInfo di) = addDynInfo dbg i di"
| "callMutator dbg i (SetComposition c) = setComposition i c"
| "callMutator dbg i (SetCustomData cd) = setCustomData i cd"

subsection \<open>Finalisation\<close>

text \<open>
  Modelled from the spec: \<open>Info::objectDone\<close> is declared in NCInfo.hh (with the
  comment that it sorts the hkl list by dspacing first and the atom info list by Z
  first, and locks the instance) and defined in a source file that is not at hand.
  The specification: a single finalize transition sorts the reflection list by
  d-spacing then by (h,k,l), sorts the atom list by atomic number, cross-links each
  AtomInfo and DynamicInfo pair sharing the same atom (by atom identity), and
  transitions to Locked; calling it on a locked object is an error like any other
  mutation. The specification gives no rule for the contents of the index lookup
  table and of the display labels, so the model leaves \<open>m_atomDataSPs\<close> and
  \<open>m_displayLabels\<close> as they are.
\<close>

text \<open>
  Modelled from the spec: the key of the reflection sort of \<open>objectDone\<close>, d-spacing
  first and then (h,k,l), compared lexicographically.
\<close>

definition hkl_sort_key :: "HKLInfo \<Rightarrow> double \<times> int \<times> int \<times> int" where
  "hkl_sort_key r = (dspacing r, h r, k r, l r)"

text \<open>
  Modelled from the spec: the key of the atom sort of \<open>objectDone\<close>, the atomic number
  of the atom's \<open>AtomData\<close>.
\<close>

definition atomic_number :: "AtomInfo \<Rightarrow> nat" where
  "atomic_number a = atomdata_Z (atomDataSP (m_iad a))"

text \<open>
  Modelled from the spec: the cross-links of \<open>objectDone\<close>. An AtomInfo is linked to
  the first DynamicInfo of the same atom and a DynamicInfo to the first AtomInfo of the
  same atom, atoms being compared by the identity of their shared record; without a
  match the back-reference stays empty.
\<close>

fun find_index :: "('a \<Rightarrow> bool) \<Rightarrow> 'a list \<Rightarrow> nat option" where
  "find_index P [] = None"
| "find_index P (x # xs) = (if P x then Some 0 else map_option Suc (find_index P xs))"

definition dyn_has_atom :: "AtomDataSP \<Rightarrow> DynamicInfo option \<Rightarrow> bool" where
  "dyn_has_atom sp d = (case d of None \<Rightarrow> False | Some d' \<Rightarrow> atomDataSP (m_atom d') = sp)"

definition link_atom :: "DynamicInfoList \<Rightarrow> AtomInfo \<Rightarrow> AtomInfo" where
  "link_atom dl a = a\<lparr>m_dyninfo := find_index (dyn_has_atom (atomDataSP (m_iad a))) dl\<rparr>"

definition link_dyn :: "AtomInfoList \<Rightarrow> DynamicInfo option \<Rightarrow> DynamicInfo option" where
  "link_dyn al d =
     map_option
       (\<lambda>d'. d'\<lparr>m_atomInfo :=
                 find_index (\<lambda>a. atomDataSP (m_iad a) = atomDataSP (m_atom d')) al\<rparr>) d"

text \<open>
  Modelled from the spec: \<open>Info::objectDone\<close> itself, as described at the head of this
  subsection.
\<close>

definition objectDone :: "Info \<Rightarrow> error + Info" where
  "objectDone i =
     ebind (ensureNoLock i)
       (\<lambda>_. let hkls = sort_key hkl_sort_key (m_hkllist i);
                atoms = sort_key atomic_number (m_atomlist i)
            in Inr (i\<lparr> m_hkllist := hkls,
                       m_atomlist := map (link_atom (m_dyninfolist i)) atoms,
                       m_dyninfolist := map (link_dyn atoms) (m_dyninfolist i),
                       m_lock := True \<rparr>))"

subsection \<open>Smallest and largest d-spacing\<close>

text \<open>
  Modelled from the spec: \<open>Info::hklDMinVal\<close> and \<open>Info::hklDMaxVal\<close> are declared in
  NCInfo.hh and defined in a source file that is not at hand. Their declaration says
  they give the smallest and largest d-spacing, and that both return infinity when the
  list is empty. The result type adds that one value to the finite doubles.
\<close>

datatype xdouble = Finite double | Infinity

definition hklDMinVal :: "Info \<Rightarrow> xdouble" where
  "hklDMinVal i =
     (case m_hkllist i of
        [] \<Rightarrow> Infinity
      | r # rs \<Rightarrow> Finite (fold (\<lambda>x m. min (dspacing x) m) rs (dspacing r)))"

text \<open>
  Modelled from the spec: \<open>Info::hklDMaxVal\<close>, the largest d-spacing, infinity when the
  list is empty (see \<open>hklDMinVal\<close>).
\<close>

definition hklDMaxVal :: "Info \<Rightarrow> xdouble" where
  "hklDMaxVal i =
     (case m_hkllist i of
        [] \<Rightarrow> Infinity
      | r # rs \<Rightarrow> Finite (fold (\<lambda>x m. max (dspacing x) m) rs (dspacing r)))"

section \<open>Lattice utilities\<close>

text \<open>
  Modelled from the spec: \<open>checkAndCompleteLattice\<close> is declared in NCLatticeUtils.hh
  and defined in a source file that is not at hand. Its declaration: for space groups
  where a==b or a==c it is allowed to provide b=0 or c=0, and the function then
  updates b and/or c; any inconsistency is a BadInput exception. The specification:
  tetragonal, trigonal and hexagonal symmetry mandate a==b, cubic symmetry mandates
  a==b==c; the call fails when the space group number is outside [1,230], when a
  provided non-zero b or c contradicts the mandated equality, or when a length that
  has to be positive is zero or negative. The number ranges of the crystal families
  are those of the International Tables: tetragonal 75-142, trigonal 143-167,
  hexagonal 168-194, cubic 195-230. The in-out parameters \<open>b\<close> and \<open>c\<close> are returned
  as a pair.
\<close>

text \<open>
  Modelled from the spec: the space groups whose symmetry mandates a==b (tetragonal,
  trigonal, hexagonal and cubic) and those that mandate a==c as well (cubic), and the
  completion of one length.
\<close>

definition mandates_b_eq_a :: "nat \<Rightarrow> bool" where
  "mandates_b_eq_a sg = (75 \<le> sg \<and> sg \<le> 230)"

definition mandates_c_eq_a :: "nat \<Rightarrow> bool" where
  "mandates_c_eq_a sg = (195 \<le> sg \<and> sg \<le> 230)"

definition complete_length :: "bool \<Rightarrow> double \<Rightarrow> double \<Rightarrow> double" where
  "complete_length mandated a x = (if mandated \<and> x = 0 then a else x)"

text \<open>
  Modelled from the spec: \<open>checkAndCompleteLattice\<close> itself, as described at the head of
  this section: the range check, the completion of b and c, the two equality checks
  and the positivity check, in this order.
\<close>

definition checkAndCompleteLattice ::
  "nat \<Rightarrow> double \<Rightarrow> double \<Rightarrow> double \<Rightarrow> error + (double \<times> double)" where
  "checkAndCompleteLattice sg a b c =
     (if sg < 1 \<or> 230 < sg then Inl BadInput
      else
        let b' = complete_length (mandates_b_eq_a sg) a b;
            c' = complete_length (mandates_c_eq_a sg) a c
        in if mandates_b_eq_a sg \<and> b' \<noteq> a then Inl BadInput
           else if mandates_c_eq_a sg \<and> c' \<noteq> a then Inl BadInput
           else if a \<le> 0 \<or> b' \<le> 0 \<or> c' \<le> 0 then Inl BadInput
           else Inr (b', c'))"

subsection \<open>Miller-index ranges and d-spacing cutoffs\<close>








section \<open>Properties named by the specification\<close>

text \<open>Lexicographic order of two reflections by (h,k,l).\<close>

definition hkl_lex_le :: "HKLInfo \<Rightarrow> HKLInfo \<Rightarrow> bool" where
  "hkl_lex_le x y =
     (h x < h y \<or> (h x = h y \<and> (k x < k y \<or> (k x = k y \<and> l x \<le> l y))))"




section \<open>Concrete objects\<close>

definition hydrogen :: AtomData where
  "hydrogen = \<lparr> atomdata_uid = 1, atomdata_Z = 1 \<rparr>"

definition oxygen :: AtomData where
  "oxygen = \<lparr> atomdata_uid = 2, atomdata_Z = 8 \<rparr>"

definition atom_with_msd :: AtomInfo where
  "atom_with_msd =
     \<lparr> m_iad = \<lparr> atomDataSP = oxygen, index = 0 \<rparr>, m_dt = None,
       m_msd = Some (1 / 100), m_pos = [(0, 0, 0)], m_dyninfo = None \<rparr>"

definition atom_without_msd :: AtomInfo where
  "atom_without_msd =
     \<lparr> m_iad = \<lparr> atomDataSP = hydrogen, index = 1 \<rparr>, m_dt = Some 300,
       m_msd = None, m_pos = [(1 / 2, 1 / 2, 1 / 2)], m_dyninfo = None \<rparr>"

definition reflection_100 :: HKLInfo where
  "reflection_100 =
     \<lparr> dspacing = 4, fsquared = 1, h = 1, k = 0, l = 0, multiplicity = 2,
       demi_normals = [(1, 0, 0)], eqv_hkl = None \<rparr>"

definition reflection_010 :: HKLInfo where
  "reflection_010 =
     \<lparr> dspacing = 4, fsquared = 1, h = 0, k = 1, l = 0, multiplicity = 2,
       demi_normals = [(0, 1, 0)], eqv_hkl = None \<rparr>"

definition reflection_200 :: HKLInfo where
  "reflection_200 =
     \<lparr> dspacing = 2, fsquared = 1, h = 2, k = 0, l = 0, multiplicity = 2,
       demi_normals = [(1, 0, 0)], eqv_hkl = None \<rparr>"

text \<open>
  An object in the Building state with two atoms (oxygen before hydrogen, only the
  first with a mean-square displacement) and three reflections out of order, and the
  same object as finalisation leaves it.
\<close>

definition example_info :: Info where
  "example_info =
     (Info_default 0)
       \<lparr> m_atomlist := [atom_with_msd, atom_without_msd],
         m_hkllist := [reflection_100, reflection_200, reflection_010],
         m_hkl_dlower_and_dupper := Some (1, 10) \<rparr>"

definition example_info_done :: Info where
  "example_info_done =
     (Info_default 0)
       \<lparr> m_atomlist := [atom_without_msd, atom_with_msd],
         m_hkllist := [reflection_200, reflection_010, reflection_100],
         m_hkl_dlower_and_dupper := Some (1, 10),
         m_lock := True \<rparr>"


section \<open>Auxiliary facts\<close>

lemma ebind_Inl: "ebind (Inl e) f = Inl e"
  by (simp add: ebind_def)

lemma ebind_Inr: "ebind (Inr x) f = f x"
  by (simp add: ebind_def)

lemma has_value_iff: "has_value x = (x \<noteq> None)"
  by (cases x) (simp_all add: has_value_def)

lemma ensureNoLock_locked: "m_lock i \<Longrightarrow> ensureNoLock i = Inl InvariantViolation"
  by (simp add: ensureNoLock_def)

lemma objectDone_Inr:
  "objectDone i0 = Inr i \<Longrightarrow>
     \<not> m_lock i0 \<and>
     i = i0\<lparr> m_hkllist := sort_key hkl_sort_key (m_hkllist i0),
             m_atomlist := map (link_atom (m_dyninfolist i0))
                             (sort_key atomic_number (m_atomlist i0)),
             m_dyninfolist := map (link_dyn (sort_key atomic_number (m_atomlist i0)))
                                (m_dyninfolist i0),
             m_lock := True \<rparr>"
  by (auto simp: objectDone_def ensureNoLock_def ebind_def Let_def split: if_splits)

lemma objectDone_locks: "objectDone i0 = Inr i \<Longrightarrow> m_lock i"
  by (drule objectDone_Inr) (erule conjE, simp)

lemma objectDone_hkllist:
  "objectDone i0 = Inr i \<Longrightarrow> m_hkllist i = sort_key hkl_sort_key (m_hkllist i0)"
  by (drule objectDone_Inr) (erule conjE, simp)

lemma objectDone_atomlist:
  "objectDone i0 = Inr i \<Longrightarrow>
     m_atomlist i =
       map (link_atom (m_dyninfolist i0)) (sort_key atomic_number (m_atomlist i0))"
  by (drule objectDone_Inr) (erule conjE, simp)

lemma objectDone_twice: "objectDone i0 = Inr i \<Longrightarrow> objectDone i = Inl InvariantViolation"
  by (simp add: objectDone_def [of i] ensureNoLock_locked objectDone_locks ebind_Inl)

lemma objectDone_example: "objectDone example_info = Inr example_info_done"
  by (simp add: objectDone_def ensureNoLock_def ebind_def example_info_def
      example_info_done_def Info_default_def hkl_sort_key_def atomic_number_def
      atom_with_msd_def atom_without_msd_def hydrogen_def oxygen_def
      reflection_100_def reflection_010_def reflection_200_def link_atom_def
      less_eq_prod_def)

lemma callMutator_locked: "m_lock i \<Longrightarrow> callMutator dbg i m = Inl InvariantViolation"
  by (cases m)
     (simp_all add: addAtom_def addHKL_def setHKLList_def setStructInfo_def
        setXSectFree_def setXSectAbsorption_def setTemperature_def setDensity_def
        setNumberDensity_def setXSectProvider_def addDynInfo_def setComposition_def
        setCustomData_def ensureNoLock_locked ebind_Inl)

lemma atomic_number_link_atom: "atomic_number (link_atom dl a) = atomic_number a"
  by (simp add: atomic_number_def link_atom_def)

lemma hkl_key_le_dspacing:
  "hkl_sort_key x \<le> hkl_sort_key y \<Longrightarrow> dspacing x \<le> dspacing y"
  by (auto simp: hkl_sort_key_def less_eq_prod_def)

lemma hkl_key_le_lex:
  "hkl_sort_key x \<le> hkl_sort_key y \<Longrightarrow> dspacing x = dspacing y \<Longrightarrow> hkl_lex_le x y"
  by (auto simp: hkl_sort_key_def less_eq_prod_def hkl_lex_le_def)

lemma sorted_hkl_keys:
  "sorted_wrt (\<lambda>x y. hkl_sort_key x \<le> hkl_sort_key y) (sort_key hkl_sort_key rs)"
proof -
  have "sorted (map hkl_sort_key (sort_key hkl_sort_key rs))"
    by (rule sorted_sort_key)
  then show ?thesis by (simp add: sorted_map)
qed

text \<open>
  \<open>changeFraction\<close> is outside the lock: a DynamicInfo of a locked object takes a new
  fraction.
\<close>

lemma changeFraction_ignores_lock: "m_fraction (changeFraction d f) = f"
  by (simp add: changeFraction_def)

subsection \<open>Row norms, bounds and cutoffs\<close>













section \<open>The claims\<close>

subsection \<open>C1: the lock\<close>

text \<open>
  C1. Once \<open>objectDone\<close> (finalize) has succeeded on an Info object, every later call
  of one of the thirteen builder operations addAtom, addHKL, setHKLList,
  setStructInfo, setXSectFree, setXSectAbsorption, setTemperature, setDensity,
  setNumberDensity, setXSectProvider, addDynInfo, setComposition and setCustomData
  fails with the invariant-violation error, whatever its argument and in either build
  mode; none of them succeeds.
\<close>

theorem lock_invariant:
  assumes "objectDone i0 = Inr i"
  shows "isLocked i \<and> callMutator dbg i m = Inl InvariantViolation"
  using objectDone_locks [OF assms] by (simp add: isLocked_def callMutator_locked)

theorem lock_invariant_witness:
  "objectDone example_info = Inr example_info_done
   \<and> isLocked example_info_done
   \<and> callMutator False example_info_done (AddHKL reflection_100) = Inl InvariantViolation"
  using lock_invariant [OF objectDone_example, of False "AddHKL reflection_100"]
  by (simp add: objectDone_example)

subsection \<open>C3: the order of the lists after finalisation\<close>

text \<open>
  C3. After \<open>objectDone\<close> has succeeded, the reflection list is non-decreasing in
  d-spacing, reflections of equal d-spacing stand in lexicographic order of (h,k,l),
  and the atom list is sorted by atomic number.
\<close>

theorem objectDone_sorts:
  assumes "objectDone i0 = Inr i"
  shows "sorted_wrt (\<lambda>x y. dspacing x \<le> dspacing y) (m_hkllist i)
       \<and> sorted_wrt (\<lambda>x y. dspacing x = dspacing y \<longrightarrow> hkl_lex_le x y) (m_hkllist i)
       \<and> sorted (map atomic_number (m_atomlist i))"
proof (intro conjI)
  have keys: "sorted_wrt (\<lambda>x y. hkl_sort_key x \<le> hkl_sort_key y) (m_hkllist i)"
    using sorted_hkl_keys by (simp add: objectDone_hkllist [OF assms])
  show "sorted_wrt (\<lambda>x y. dspacing x \<le> dspacing y) (m_hkllist i)"
    by (rule sorted_wrt_mono_rel [OF _ keys]) (rule hkl_key_le_dspacing)
  show "sorted_wrt (\<lambda>x y. dspacing x = dspacing y \<longrightarrow> hkl_lex_le x y) (m_hkllist i)"
    by (rule sorted_wrt_mono_rel [OF _ keys]) (simp add: hkl_key_le_lex)
  have "map atomic_number (m_atomlist i)
          = map atomic_number (sort_key atomic_number (m_atomlist i0))"
    by (simp add: objectDone_atomlist [OF assms] atomic_number_link_atom comp_def)
  then show "sorted (map atomic_number (m_atomlist i))"
    by simp
qed

theorem objectDone_sorts_witness:
  "objectDone example_info = Inr example_info_done
   \<and> sorted_wrt (\<lambda>x y. dspacing x \<le> dspacing y) (m_hkllist example_info_done)
   \<and> sorted_wrt (\<lambda>x y. dspacing x = dspacing y \<longrightarrow> hkl_lex_le x y)
        (m_hkllist example_info_done)
   \<and> sorted (map atomic_number (m_atomlist example_info_done))
   \<and> m_hkllist example_info_done = [reflection_200, reflection_010, reflection_100]"
  using objectDone_sorts [OF objectDone_example]
  by (simp add: objectDone_example) (simp add: example_info_done_def)

subsection \<open>C4: range and cutoff\<close>




subsection \<open>C7: presence of mean-square displacements and Debye temperatures\<close>

text \<open>
  C7. \<open>hasAtomMSD\<close> is true exactly when the atom list is non-empty and its first
  entry has a mean-square displacement; the entries after the first have no
  influence, also when they disagree with the first. \<open>hasAtomDebyeTemp\<close> reads the
  Debye temperature of the first entry in the same way.
\<close>

theorem hasAtomMSD_first_entry_only:
  "hasAtomMSD i = (case m_atomlist i of [] \<Rightarrow> False | a # rest \<Rightarrow> m_msd a \<noteq> None)
   \<and> hasAtomDebyeTemp i = (case m_atomlist i of [] \<Rightarrow> False | a # rest \<Rightarrow> m_dt a \<noteq> None)
   \<and> hasAtomMSD (i\<lparr>m_atomlist := a # rest\<rparr>) = (m_msd a \<noteq> None)
   \<and> hasAtomDebyeTemp (i\<lparr>m_atomlist := a # rest\<rparr>) = (m_dt a \<noteq> None)"
  by (simp add: hasAtomMSD_def hasAtomDebyeTemp_def hasAtomInfo_def has_value_iff
      split: list.split)

theorem hasAtomMSD_first_entry_only_witness:
  "hasAtomMSD ((Info_default 0)\<lparr>m_atomlist := [atom_with_msd, atom_without_msd]\<rparr>)
   \<and> \<not> hasAtomMSD ((Info_default 0)\<lparr>m_atomlist := [atom_without_msd, atom_with_msd]\<rparr>)
   \<and> \<not> hasAtomDebyeTemp ((Info_default 0)\<lparr>m_atomlist := [atom_with_msd, atom_without_msd]\<rparr>)
   \<and> hasAtomDebyeTemp ((Info_default 0)\<lparr>m_atomlist := [atom_without_msd, atom_with_msd]\<rparr>)
   \<and> \<not> hasAtomMSD (Info_default 0)"
  using hasAtomMSD_first_entry_only [of "Info_default 0" atom_with_msd "[atom_without_msd]"]
    hasAtomMSD_first_entry_only [of "Info_default 0" atom_without_msd "[atom_with_msd]"]
  by (simp add: atom_with_msd_def atom_without_msd_def Info_default_def)

subsection \<open>C8: an empty reflection list\<close>

text \<open>
  C8. For an Info object whose reflection list is empty, \<open>nHKL\<close> is 0, \<open>hklBegin\<close>
  and \<open>hklLast\<close> both equal \<open>hklEnd\<close>, and the smallest and the largest d-spacing are
  both infinity. \<open>hasHKLInfo\<close> does not look at the list: it is false when the
  [dlower,dupper] window is absent and true when it is present, and then \<open>hklDLower\<close>
  and \<open>hklDUpper\<close> return the two ends of the window.
\<close>

theorem empty_hkl_list:
  assumes "m_hkllist i = []"
  shows "nHKL i = 0 \<and> hklBegin i = hklEnd i \<and> hklLast i = hklEnd i
       \<and> hklDMinVal i = Infinity \<and> hklDMaxVal i = Infinity
       \<and> hasHKLInfo i = (m_hkl_dlower_and_dupper i \<noteq> None)
       \<and> hasHKLInfo (i\<lparr>m_hkl_dlower_and_dupper := None\<rparr>) = False
       \<and> hasHKLInfo (i\<lparr>m_hkl_dlower_and_dupper := Some (lo, up)\<rparr>) = True
       \<and> hklDLower dbg (i\<lparr>m_hkl_dlower_and_dupper := Some (lo, up)\<rparr>) = Inr lo
       \<and> hklDUpper dbg (i\<lparr>m_hkl_dlower_and_dupper := Some (lo, up)\<rparr>) = Inr up"
  using assms
  by (simp add: nHKL_def hklBegin_def hklEnd_def hklLast_def hklDMinVal_def hklDMaxVal_def
      hasHKLInfo_def has_value_iff hklDLower_def hklDUpper_def nc_assert_def
      optional_value_def ebind_def)

theorem empty_hkl_list_witness:
  "m_hkllist (Info_default 0) = []
   \<and> nHKL (Info_default 0) = 0
   \<and> hklBegin (Info_default 0) = hklEnd (Info_default 0)
   \<and> hklLast (Info_default 0) = hklEnd (Info_default 0)
   \<and> hklDMinVal (Info_default 0) = Infinity
   \<and> hklDMaxVal (Info_default 0) = Infinity
   \<and> \<not> hasHKLInfo (Info_default 0)
   \<and> hasHKLInfo ((Info_default 0)\<lparr>m_hkl_dlower_and_dupper := Some (1, 10)\<rparr>)
   \<and> hklDLower True ((Info_default 0)\<lparr>m_hkl_dlower_and_dupper := Some (1, 10)\<rparr>) = Inr 1
   \<and> hklDUpper True ((Info_default 0)\<lparr>m_hkl_dlower_and_dupper := Some (1, 10)\<rparr>) = Inr 10"
proof -
  have empty: "m_hkllist (Info_default 0) = []"
    by (simp add: Info_default_def)
  have window: "m_hkl_dlower_and_dupper (Info_default 0) = None"
    by (simp add: Info_default_def)
  from empty_hkl_list [OF empty, of 1 10 True] empty window
  show ?thesis by simp
qed

subsection \<open>C9: the obsolete Debye temperature accessors\<close>

text \<open>
  C9. For every Info object, \<open>getGlobalDebyeTemperature\<close>,
  \<open>hasPerElementDebyeTemperature\<close> and \<open>getDebyeTemperatureByElement\<close> fail with the
  error that carries the migration message; none of them returns a value.
\<close>

theorem obsolete_debye_accessors_always_fail:
  "getGlobalDebyeTemperature i = Inl (LogicError obsoleteDebyeTempMessage)
   \<and> hasPerElementDebyeTemperature i = Inl (LogicError obsoleteDebyeTempMessage)
   \<and> getDebyeTemperatureByElement i ai = Inl (LogicError obsoleteDebyeTempMessage)"
  by (simp add: getGlobalDebyeTemperature_def hasPerElementDebyeTemperature_def
      getDebyeTemperatureByElement_def throwObsoleteDebyeTemp_def ebind_Inl)

subsection \<open>C10: crystalline materials\<close>

text \<open>
  C10. \<open>isCrystalline\<close> is true exactly when structure info is present, or the atom
  list is non-empty, or HKL info is configured; \<open>hasAtomPositions\<close> is
  \<open>hasAtomInfo\<close>.
\<close>

theorem isCrystalline_iff:
  "isCrystalline i = (hasStructureInfo i \<or> hasAtomInfo i \<or> hasHKLInfo i)
   \<and> hasAtomPositions i = hasAtomInfo i
   \<and> hasStructureInfo i = (m_structinfo i \<noteq> None)
   \<and> hasAtomInfo i = (m_atomlist i \<noteq> [])
   \<and> hasHKLInfo i = (m_hkl_dlower_and_dupper i \<noteq> None)"
  by (simp add: isCrystalline_def hasAtomPositions_def hasStructureInfo_def
      hasAtomInfo_def hasHKLInfo_def has_value_iff)

theorem isCrystalline_iff_witness:
  "\<not> isCrystalline (Info_default 0)
   \<and> isCrystalline ((Info_default 0)\<lparr>m_atomlist := [atom_with_msd]\<rparr>)
   \<and> isCrystalline ((Info_default 0)\<lparr>m_hkl_dlower_and_dupper := Some (1, 10)\<rparr>)"
  using isCrystalline_iff [of "Info_default 0"]
    isCrystalline_iff [of "(Info_default 0)\<lparr>m_atomlist := [atom_with_msd]\<rparr>"]
    isCrystalline_iff [of "(Info_default 0)\<lparr>m_hkl_dlower_and_dupper := Some (1, 10)\<rparr>"]
  by (simp add: Info_default_def)

subsection \<open>C5: completion of the lattice lengths\<close>

text \<open>
  C5. For the cubic space group 225 with a = 4.0, \<open>checkAndCompleteLattice\<close> completes
  b = c = 0 to b = c = 4.0, and fails with the input-validation error when b = 3.9 is
  supplied. In general it fails exactly when the space group number is outside
  [1,230], or a non-zero b or c contradicts the equality the symmetry mandates, or a
  length that has to be positive (a, and b or c unless it is a zero that the symmetry
  fills in) is zero or negative; the failure is always the input-validation error.
\<close>

theorem checkAndCompleteLattice_spec:
  "checkAndCompleteLattice 225 4 0 0 = Inr (4, 4)
   \<and> checkAndCompleteLattice 225 4 (39 / 10) 0 = Inl BadInput
   \<and> ((\<exists>e. checkAndCompleteLattice sg a b c = Inl e) \<longleftrightarrow>
        (sg < 1 \<or> 230 < sg
         \<or> (mandates_b_eq_a sg \<and> b \<noteq> 0 \<and> b \<noteq> a)
         \<or> (mandates_c_eq_a sg \<and> c \<noteq> 0 \<and> c \<noteq> a)
         \<or> a \<le> 0
         \<or> (b \<le> 0 \<and> \<not> (mandates_b_eq_a sg \<and> b = 0))
         \<or> (c \<le> 0 \<and> \<not> (mandates_c_eq_a sg \<and> c = 0))))
   \<and> ((\<exists>e. checkAndCompleteLattice sg a b c = Inl e) \<longleftrightarrow>
        checkAndCompleteLattice sg a b c = Inl BadInput)"
proof (intro conjI)
  show "checkAndCompleteLattice 225 4 0 0 = Inr (4, 4)"
    by (simp add: checkAndCompleteLattice_def mandates_b_eq_a_def mandates_c_eq_a_def
        complete_length_def)
  show "checkAndCompleteLattice 225 4 (39 / 10) 0 = Inl BadInput"
    by (simp add: checkAndCompleteLattice_def mandates_b_eq_a_def mandates_c_eq_a_def
        complete_length_def)
  show "(\<exists>e. checkAndCompleteLattice sg a b c = Inl e) \<longleftrightarrow>
        (sg < 1 \<or> 230 < sg
         \<or> (mandates_b_eq_a sg \<and> b \<noteq> 0 \<and> b \<noteq> a)
         \<or> (mandates_c_eq_a sg \<and> c \<noteq> 0 \<and> c \<noteq> a)
         \<or> a \<le> 0
         \<or> (b \<le> 0 \<and> \<not> (mandates_b_eq_a sg \<and> b = 0))
         \<or> (c \<le> 0 \<and> \<not> (mandates_c_eq_a sg \<and> c = 0)))"
    unfolding checkAndCompleteLattice_def complete_length_def Let_def
    by (cases "mandates_b_eq_a sg"; cases "mandates_c_eq_a sg"; cases "b = 0"; cases "c = 0")
       (auto split: if_splits)
  show "(\<exists>e. checkAndCompleteLattice sg a b c = Inl e) \<longleftrightarrow>
        checkAndCompleteLattice sg a b c = Inl BadInput"
    unfolding checkAndCompleteLattice_def Let_def
    by (auto split: if_splits)
qed

theorem checkAndCompleteLattice_spec_witness:
  "checkAndCompleteLattice 225 4 0 0 = Inr (4, 4)
   \<and> checkAndCompleteLattice 225 4 (39 / 10) 0 = Inl BadInput
   \<and> checkAndCompleteLattice 231 4 4 4 = Inl BadInput
   \<and> checkAndCompleteLattice 100 3 0 0 = Inl BadInput
   \<and> \<not> (\<exists>e. checkAndCompleteLattice 100 3 0 5 = Inl e)"
  using checkAndCompleteLattice_spec [of 231 4 4 4]
    checkAndCompleteLattice_spec [of 100 3 0 0]
    checkAndCompleteLattice_spec [of 100 3 0 5]
  by (auto simp add: mandates_b_eq_a_def mandates_c_eq_a_def)

end
